theory Spec2Isabelle
  imports Main "HOL-Library.Word"
begin

section \<open>The HTTP route reconciler of the Grafana operator\<close>

text \<open>
  A shallow embedding of \<^verbatim>\<open>controllers/reconcilers/grafana/http_route_reconciler.go\<close>.
  Go strings are \<^typ>\<open>string\<close>, a Go pointer that may be nil is an \<^typ>\<open>'a option\<close>,
  a Go \<^verbatim>\<open>error\<close> is its message, and a run of a function either returns a value or
  panics (a nil pointer dereference).
\<close>

subsection \<open>Data model\<close>

type_synonym err = string

datatype 'a outcome = Panic | Return 'a

text \<open>\<^verbatim>\<open>types.NamespacedName\<close>, the key of a store lookup.\<close>

record NamespacedName =
  nn_Namespace :: string
  nn_Name :: string

text \<open>\<^verbatim>\<open>v2.ParentReference\<close>: \<^verbatim>\<open>Namespace\<close> is a pointer, \<^verbatim>\<open>Name\<close> a string.\<close>

record ParentReference =
  pr_Namespace :: "string option"
  pr_Name :: string

text \<open>\<^verbatim>\<open>v2.Gateway\<close>, as far as the reconciler reads it: \<^verbatim>\<open>Status.Addresses\<close>.\<close>

record GatewayStatusAddress =
  addr_Value :: string

record Gateway =
  gw_Addresses :: "GatewayStatusAddress list"

text \<open>One entry of \<^verbatim>\<open>Status.LoadBalancer.Ingress\<close>.\<close>

record LoadBalancerIngress =
  lb_Hostname :: string
  lb_IP :: string

text \<open>\<^verbatim>\<open>v2.HTTPRouteSpec\<close> and the structures \<^verbatim>\<open>getHttpRouteSpec\<close> fills in.
  \<^verbatim>\<open>v2.PortNumber\<close> is an \<^verbatim>\<open>int32\<close>.\<close>

datatype PathMatchType = PathMatchExact | PathMatchPathPrefix | PathMatchRegularExpression

record HTTPPathMatch =
  pm_Type :: "PathMatchType option"
  pm_Value :: "string option"

record HTTPRouteMatch =
  m_Path :: "HTTPPathMatch option"

record BackendObjectReference =
  bor_Name :: string
  bor_Namespace :: "string option"
  bor_Port :: "32 word option"

record HTTPBackendRef =
  br_BackendRef :: BackendObjectReference

record HTTPRouteRule =
  rule_BackendRefs :: "HTTPBackendRef list"
  rule_Matches :: "HTTPRouteMatch list"

record HTTPRouteSpec =
  spec_ParentRefs :: "ParentReference list"
  spec_Hostnames :: "string list"
  spec_Rules :: "HTTPRouteRule list"

text \<open>
  The routing object. The source reads it through two names, the parameter
  \<^verbatim>\<open>httpRoute\<close> (\<^verbatim>\<open>Spec.Hostnames\<close>, \<^verbatim>\<open>Spec.ParentRefs\<close>) and the identifier
  \<^verbatim>\<open>ingress\<close> (\<^verbatim>\<open>Status.LoadBalancer.Ingress\<close>, labels, owner); one record carries
  every field either name is used with. \<^verbatim>\<open>ro_Controller\<close> is the controller owner
  reference (the owner's namespace and name), if any.
\<close>

record RoutingObject =
  ro_Namespace :: string
  ro_Name :: string
  ro_Labels :: "string \<rightharpoonup> string"
  ro_Controller :: "NamespacedName option"
  ro_Spec :: HTTPRouteSpec
  ro_LoadBalancer :: "LoadBalancerIngress list"

subsection \<open>Endpoint resolution: \<^verbatim>\<open>getHttpRouteAdminURL\<close>\<close>

text \<open>Lines 130-135: the first non-empty address value of the gateway, or the empty
  string.\<close>

fun firstAddress :: "GatewayStatusAddress list \<Rightarrow> string" where
  "firstAddress [] = ''''"
| "firstAddress (address # rest) =
     (if addr_Value address \<noteq> '''' then addr_Value address else firstAddress rest)"

text \<open>Lines 150-159: the loop over the load-balancer entries, with the loop variables
  \<^verbatim>\<open>hostname\<close> (empty on entry) and \<^verbatim>\<open>loadBalancerIP\<close>. It stops at the first entry
  with a hostname; every entry before it that has an IP overwrites
  \<^verbatim>\<open>loadBalancerIP\<close>.\<close>

fun scanLoadBalancer :: "LoadBalancerIngress list \<Rightarrow> string \<Rightarrow> string \<times> string" where
  "scanLoadBalancer [] loadBalancerIP = ('''', loadBalancerIP)"
| "scanLoadBalancer (lb # rest) loadBalancerIP =
     (if lb_Hostname lb \<noteq> '''' then (lb_Hostname lb, loadBalancerIP)
      else scanLoadBalancer rest (if lb_IP lb \<noteq> '''' then lb_IP lb else loadBalancerIP))"

text \<open>
  \<^verbatim>\<open>getHttpRouteAdminURL\<close>. \<^verbatim>\<open>clientGet\<close> is \<^verbatim>\<open>r.client.Get\<close> on gateways,
  \<^verbatim>\<open>ingress\<close> the object whose load-balancer status lines 150-159 read, and
  \<^verbatim>\<open>httpRoute\<close> the parameter (\<^verbatim>\<open>None\<close> is nil). The result is the list of
  errors logged and the returned string. The listener loop of lines 142-144 has an
  empty body.
\<close>

definition getHttpRouteAdminURL ::
  "(NamespacedName \<Rightarrow> err + Gateway) \<Rightarrow> RoutingObject \<Rightarrow> RoutingObject option
     \<Rightarrow> ((err \<times> string) list \<times> string) outcome" where
  "getHttpRouteAdminURL clientGet ingress httpRoute =
     (case httpRoute of
        None \<Rightarrow> Return ([], '''')
      | Some hr \<Rightarrow>
          let protocol = ''http'';
              hostname0 = (if length (spec_Hostnames (ro_Spec hr)) > 0
                           then spec_Hostnames (ro_Spec hr) ! 0 else '''');
              fetched =
                (if length (spec_ParentRefs (ro_Spec hr)) > 0 then
                   (let pr = spec_ParentRefs (ro_Spec hr) ! 0 in
                    case pr_Namespace pr of
                      None \<Rightarrow> Panic
                    | Some ns \<Rightarrow>
                        Return (clientGet \<lparr>nn_Namespace = ns, nn_Name = pr_Name pr\<rparr>))
                 else Return (Inr \<lparr>gw_Addresses = []\<rparr>))
          in
          (case fetched of
            Panic \<Rightarrow> Panic
          | Return (Inl e) \<Rightarrow> Return ([(e, ''error synchronizing grafana statuses'')], '''')
          | Return (Inr gw) \<Rightarrow>
              let hostname1 =
                    (if hostname0 = '''' then
                       (let loadBalanceIP = firstAddress (gw_Addresses gw) in
                        if loadBalanceIP \<noteq> '''' then loadBalanceIP else hostname0)
                     else hostname0);
                  hostname2 =
                    (if hostname1 = '''' then
                       (case scanLoadBalancer (ro_LoadBalancer ingress) '''' of
                          (hostname, loadBalancerIP) \<Rightarrow>
                            if hostname = '''' \<and> loadBalancerIP \<noteq> ''''
                            then loadBalancerIP else hostname)
                     else hostname1);
                  adminURL = (if hostname2 \<noteq> '''' then protocol @ ''://'' @ hostname2 else '''')
              in Return ([], adminURL)))"

subsection \<open>The spec builder: \<^verbatim>\<open>getHttpRouteSpec\<close>\<close>

text \<open>
  \<^verbatim>\<open>intstr.IntOrString\<close> of the Kubernetes library: a tag, an \<^verbatim>\<open>int32\<close> and a string.
  \<^verbatim>\<open>FromInt\<close> converts a Go \<^verbatim>\<open>int\<close> (64 bits here) to \<^verbatim>\<open>int32\<close>, which keeps the low
  32 bits. \<^verbatim>\<open>IntValue\<close> parses the string of a string-tagged value with
  \<^verbatim>\<open>strconv.Atoi\<close> (the parameter \<^verbatim>\<open>atoi\<close>) and sign-extends the \<^verbatim>\<open>int32\<close> otherwise.
\<close>

datatype IntOrStringType = intstr_Int | intstr_String

record IntOrString =
  ios_Type :: IntOrStringType
  ios_IntVal :: "32 word"
  ios_StrVal :: string

definition FromInt :: "64 word \<Rightarrow> IntOrString" where
  "FromInt val = \<lparr>ios_Type = intstr_Int, ios_IntVal = ucast val, ios_StrVal = ''''\<rparr>"

definition IntValue :: "(string \<Rightarrow> 64 word) \<Rightarrow> IntOrString \<Rightarrow> 64 word" where
  "IntValue atoi p =
     (if ios_Type p = intstr_String then atoi (ios_StrVal p) else scast (ios_IntVal p))"

text \<open>\<^verbatim>\<open>GetHttpRouteTargetPort\<close>; \<^verbatim>\<open>grafanaPort\<close> is the value of
  \<^verbatim>\<open>GetGrafanaPort(cr)\<close>, a function that is not part of this file.\<close>

definition GetHttpRouteTargetPort :: "64 word \<Rightarrow> IntOrString" where
  "GetHttpRouteTargetPort grafanaPort = FromInt grafanaPort"

text \<open>\<^verbatim>\<open>v1.ServiceBackendPort\<close> and lines 186-193, which fill the local
  \<^verbatim>\<open>assignedPort\<close> from the port: the number when the \<^verbatim>\<open>int32\<close> is positive, the
  name when the string is non-empty.\<close>

record ServiceBackendPort =
  sbp_Name :: string
  sbp_Number :: "32 word"

definition assignedPort :: "IntOrString \<Rightarrow> ServiceBackendPort" where
  "assignedPort port =
     (let p0 = \<lparr>sbp_Name = '''', sbp_Number = 0\<rparr>;
          p1 = (if 0 <s ios_IntVal port then p0\<lparr>sbp_Number := ios_IntVal port\<rparr> else p0)
      in if ios_StrVal port \<noteq> '''' then p1\<lparr>sbp_Name := ios_StrVal port\<rparr> else p1)"

text \<open>
  \<^verbatim>\<open>getHttpRouteSpec\<close>. \<^verbatim>\<open>service\<close> is the name and namespace of
  \<^verbatim>\<open>model.GetGrafanaService(cr, scheme)\<close>, which is not part of this file. The returned
  literal sets \<^verbatim>\<open>Rules\<close> only; it reads \<^verbatim>\<open>servicePort\<close> and never \<^verbatim>\<open>assignedPort\<close>.
\<close>

definition getHttpRouteSpec ::
  "(string \<Rightarrow> 64 word) \<Rightarrow> NamespacedName \<Rightarrow> 64 word \<Rightarrow> HTTPRouteSpec" where
  "getHttpRouteSpec atoi service grafanaPort =
     (let port = GetHttpRouteTargetPort grafanaPort;
          serviceName = nn_Name service;
          serviceNamespace = nn_Namespace service;
          servicePort = (ucast (IntValue atoi port) :: 32 word);
          pathType = PathMatchPathPrefix;
          path = ''/''
      in \<lparr>spec_ParentRefs = [], spec_Hostnames = [],
          spec_Rules =
            [\<lparr>rule_BackendRefs =
                [\<lparr>br_BackendRef =
                    \<lparr>bor_Name = serviceName,
                     bor_Namespace = Some serviceNamespace,
                     bor_Port = Some servicePort\<rparr>\<rparr>],
              rule_Matches =
                [\<lparr>m_Path = Some \<lparr>pm_Type = Some pathType, pm_Value = Some path\<rparr>\<rparr>]\<rparr>]\<rparr>)"

subsection \<open>The owning descriptor and the collaborators of the reconcile\<close>

text \<open>
  An override fragment (\<^verbatim>\<open>cr.Spec.Ingress\<close>, \<^verbatim>\<open>cr.Spec.HttpRoute\<close>): each field of the
  routing object it names, and \<^verbatim>\<open>frag_Incompatible\<close>, the error text of the merge when
  the fragment does not fit the schema of the routing object (a field the schema does
  not have, a value of the wrong type).
\<close>

record RawFragment =
  frag_Labels :: "string \<rightharpoonup> string"
  frag_ParentRefs :: "ParentReference list option"
  frag_Hostnames :: "string list option"
  frag_Rules :: "HTTPRouteRule list option"
  frag_Incompatible :: "err option"

record Condition =
  cond_Status :: bool
  cond_Reason :: string
  cond_Message :: string

text \<open>
  \<^verbatim>\<open>v1beta1.Grafana\<close>, as far as the reconciler reads and writes it: identity, labels,
  \<^verbatim>\<open>Spec.HttpRoute\<close>, \<^verbatim>\<open>Spec.Ingress\<close>, \<^verbatim>\<open>Status.AdminURL\<close>, \<^verbatim>\<open>Status.Conditions\<close>
  (by condition type). \<^verbatim>\<open>cr_PreferIngress\<close> is the value of the method
  \<^verbatim>\<open>cr.PreferIngress()\<close>, which is not part of this file.
\<close>

record Grafana =
  cr_Namespace :: string
  cr_Name :: string
  cr_Labels :: "string \<rightharpoonup> string"
  cr_HttpRoute :: "RawFragment option"
  cr_Ingress :: "RawFragment option"
  cr_PreferIngress :: bool
  cr_AdminURL :: string
  cr_Conditions :: "string \<rightharpoonup> Condition"

text \<open>
  Modelled from the spec: \<^verbatim>\<open>v1beta1.Merge\<close> is defined in another package, outside the
  file. Section 4.2: an empty override returns the base unchanged with no error; otherwise the fields of the
  override take precedence and the fields absent from it are preserved from the base;
  an override that is structurally incompatible with the target schema fails with the
  merge error, and the base is not changed.
\<close>

definition Merge :: "RoutingObject \<Rightarrow> RawFragment option \<Rightarrow> err + RoutingObject" where
  "Merge base override =
     (case override of
        None \<Rightarrow> Inr base
      | Some f \<Rightarrow>
          (case frag_Incompatible f of
             Some e \<Rightarrow> Inl e
           | None \<Rightarrow>
               Inr (base
                 \<lparr>ro_Labels := ro_Labels base ++ frag_Labels f,
                  ro_Spec :=
                    \<lparr>spec_ParentRefs =
                       (case frag_ParentRefs f of
                          None \<Rightarrow> spec_ParentRefs (ro_Spec base) | Some v \<Rightarrow> v),
                     spec_Hostnames =
                       (case frag_Hostnames f of
                          None \<Rightarrow> spec_Hostnames (ro_Spec base) | Some v \<Rightarrow> v),
                     spec_Rules =
                       (case frag_Rules f of
                          None \<Rightarrow> spec_Rules (ro_Spec base) | Some v \<Rightarrow> v)\<rparr>\<rparr>)))"

text \<open>
  Modelled from the spec: \<^verbatim>\<open>setInvalidMergeCondition\<close> and
  \<^verbatim>\<open>removeInvalidMergeCondition\<close> are defined outside the file. Sections 3, 4.2 and 6:
  the condition \<^verbatim>\<open>Conditions["InvalidMerge"]\<close> of the descriptor is set to failed (status
  true) with the error text as its message, and cleared on success. The spec does not
  say what the reason holds; the model stores the object name the source passes.
\<close>

definition setInvalidMergeCondition :: "Grafana \<Rightarrow> string \<Rightarrow> err \<Rightarrow> Grafana" where
  "setInvalidMergeCondition cr object e =
     cr\<lparr>cr_Conditions := (cr_Conditions cr)(''InvalidMerge'' \<mapsto>
          \<lparr>cond_Status = True, cond_Reason = object, cond_Message = e\<rparr>)\<rparr>"

text \<open>Modelled from the spec: \<^verbatim>\<open>removeInvalidMergeCondition\<close>, defined outside the file.
  Section 4.2: on success a previously set merge condition is cleared.\<close>

definition removeInvalidMergeCondition :: "Grafana \<Rightarrow> string \<Rightarrow> Grafana" where
  "removeInvalidMergeCondition cr object =
     cr\<lparr>cr_Conditions := (cr_Conditions cr)(''InvalidMerge'' := None)\<rparr>"

text \<open>
  Modelled from the spec: \<^verbatim>\<open>controllerutil.SetControllerReference\<close> is a library
  function, defined outside the file.
  Sections 4.3, 5 and 7: the ownership reference of the object is set to the owning
  descriptor; an object that another owner controls is not taken over, which is the
  ownership error.
\<close>

definition SetControllerReference :: "Grafana \<Rightarrow> RoutingObject \<Rightarrow> err + RoutingObject" where
  "SetControllerReference cr obj =
     (let owner = \<lparr>nn_Namespace = cr_Namespace cr, nn_Name = cr_Name cr\<rparr> in
      case ro_Controller obj of
        None \<Rightarrow> Inr (obj\<lparr>ro_Controller := Some owner\<rparr>)
      | Some existing \<Rightarrow>
          if existing = owner then Inr obj
          else Inl ''object is already owned by another controller'')"

text \<open>
  Modelled from the spec: \<^verbatim>\<open>model.SetInheritedLabels\<close> is defined in another package,
  outside the file. Section 4.3:
  the labels of the descriptor are copied verbatim onto the object; labels of the object
  that the descriptor does not have are left untouched.
\<close>

definition SetInheritedLabels :: "RoutingObject \<Rightarrow> (string \<rightharpoonup> string) \<Rightarrow> RoutingObject" where
  "SetInheritedLabels obj labels = obj\<lparr>ro_Labels := ro_Labels obj ++ labels\<rparr>"

text \<open>
  The object store behind \<^verbatim>\<open>r.client\<close>: the routing objects by key, the answer of a
  gateway lookup, and the failure (if any) of a read and of a write of a routing object.
\<close>

record Client =
  cl_Objects :: "NamespacedName \<rightharpoonup> RoutingObject"
  cl_Gateways :: "NamespacedName \<Rightarrow> err + Gateway"
  cl_GetError :: "err option"
  cl_WriteError :: "err option"

datatype OperationResult =
  OperationResultNone | OperationResultCreated | OperationResultUpdated

text \<open>
  Modelled from the spec: \<^verbatim>\<open>controllerutil.CreateOrUpdate\<close> is a library function,
  defined outside the file. Sections
  4.3 and 6: the object is looked up by identity; the mutation is applied to the fetched
  object, or to the new one when the store has none; a failure of the mutation is
  returned and nothing is persisted; a new object is created; a fetched object is
  updated if the computed state differs from it, and left alone otherwise. \<^verbatim>\<open>env\<close>
  is what the mutation closure captures besides the object. The result is the store, the
  captured state, the object as the caller holds it afterwards, whether the store was
  mutated, and the error.
\<close>

definition CreateOrUpdate ::
  "Client \<Rightarrow> RoutingObject \<Rightarrow> 'env
     \<Rightarrow> ('env \<Rightarrow> RoutingObject \<Rightarrow> 'env \<times> RoutingObject \<times> err option)
     \<Rightarrow> Client \<times> 'env \<times> RoutingObject \<times> OperationResult \<times> err option" where
  "CreateOrUpdate c obj env f =
     (let key = \<lparr>nn_Namespace = ro_Namespace obj, nn_Name = ro_Name obj\<rparr> in
      case cl_GetError c of
        Some e \<Rightarrow> (c, env, obj, OperationResultNone, Some e)
      | None \<Rightarrow>
          (case cl_Objects c key of
             None \<Rightarrow>
               (case f env obj of
                  (env', obj', Some e) \<Rightarrow> (c, env', obj', OperationResultNone, Some e)
                | (env', obj', None) \<Rightarrow>
                    (case cl_WriteError c of
                       Some e \<Rightarrow> (c, env', obj', OperationResultNone, Some e)
                     | None \<Rightarrow>
                         (c\<lparr>cl_Objects := (cl_Objects c)(key \<mapsto> obj')\<rparr>, env', obj',
                          OperationResultCreated, None)))
           | Some existing \<Rightarrow>
               (case f env existing of
                  (env', obj', Some e) \<Rightarrow> (c, env', obj', OperationResultNone, Some e)
                | (env', obj', None) \<Rightarrow>
                    if existing = obj' then (c, env', obj', OperationResultNone, None)
                    else
                      (case cl_WriteError c of
                         Some e \<Rightarrow> (c, env', obj', OperationResultNone, Some e)
                       | None \<Rightarrow>
                           (c\<lparr>cl_Objects := (cl_Objects c)(key \<mapsto> obj')\<rparr>, env', obj',
                            OperationResultUpdated, None)))))"

subsection \<open>The reconcile: \<^verbatim>\<open>reconcileIngress\<close>\<close>

text \<open>
  The closure of lines 52-71. It captures \<^verbatim>\<open>cr\<close> and the local \<^verbatim>\<open>httpRoute\<close> and works
  on the object \<^verbatim>\<open>ingress\<close> that \<^verbatim>\<open>CreateOrUpdate\<close> holds. Line 53 assigns the built
  spec to \<^verbatim>\<open>httpRoute\<close>, not to \<^verbatim>\<open>ingress\<close>; the builder it calls,
  \<^verbatim>\<open>getIngressSpec\<close>, is not part of this file and is a parameter. The override merged
  is \<^verbatim>\<open>cr.Spec.Ingress\<close>.
\<close>

definition mutateFn ::
  "(Grafana \<Rightarrow> HTTPRouteSpec) \<Rightarrow> Grafana \<times> RoutingObject \<Rightarrow> RoutingObject
     \<Rightarrow> (Grafana \<times> RoutingObject) \<times> RoutingObject \<times> err option" where
  "mutateFn getIngressSpec env ingress =
     (case env of
        (cr, httpRoute) \<Rightarrow>
          let httpRoute1 = httpRoute\<lparr>ro_Spec := getIngressSpec cr\<rparr> in
          (case Merge ingress (cr_Ingress cr) of
             Inl e \<Rightarrow> ((setInvalidMergeCondition cr ''Ingress'' e, httpRoute1), ingress, Some e)
           | Inr ingress1 \<Rightarrow>
               let cr1 = removeInvalidMergeCondition cr ''Ingress'' in
               (case SetControllerReference cr1 ingress1 of
                  Inl e \<Rightarrow> ((cr1, httpRoute1), ingress1, Some e)
                | Inr ingress2 \<Rightarrow>
                    ((cr1, httpRoute1), SetInheritedLabels ingress2 (cr_Labels cr1), None))))"

datatype OperatorStageStatus =
  OperatorStageResultSuccess | OperatorStageResultFailed | OperatorStageResultInProgress

text \<open>What a run of the reconcile leaves: the stage and the error it returns, the
  descriptor and the store.\<close>

record ReconcileResult =
  res_Stage :: OperatorStageStatus
  res_Error :: "err option"
  res_cr :: Grafana
  res_Client :: Client

text \<open>
  \<^verbatim>\<open>reconcileIngress\<close>. \<^verbatim>\<open>httpRoute\<close> is the value of
  \<^verbatim>\<open>model.GetGrafanaHttpRoute(cr, scheme)\<close>, which is not part of this file, and
  \<^verbatim>\<open>ingress\<close> the object the source names so. The admin URL is computed before the
  load-balancer list is tested (lines 78-80), so a panic of the resolution is a panic of
  the reconcile. The errors the resolution logs are not part of the result.
\<close>

definition reconcileIngress ::
  "(Grafana \<Rightarrow> HTTPRouteSpec) \<Rightarrow> Client \<Rightarrow> Grafana \<Rightarrow> RoutingObject \<Rightarrow> RoutingObject
     \<Rightarrow> ReconcileResult outcome" where
  "reconcileIngress getIngressSpec c cr httpRoute ingress =
     (if cr_HttpRoute cr = None then
        Return \<lparr>res_Stage = OperatorStageResultSuccess, res_Error = None,
                res_cr = cr, res_Client = c\<rparr>
      else
        (case CreateOrUpdate c ingress (cr, httpRoute) (mutateFn getIngressSpec) of
           (c', (cr', httpRoute'), ingress', result, Some e) \<Rightarrow>
             Return \<lparr>res_Stage = OperatorStageResultFailed, res_Error = Some e,
                     res_cr = cr', res_Client = c'\<rparr>
         | (c', (cr', httpRoute'), ingress', result, None) \<Rightarrow>
             if cr_PreferIngress cr' then
               (case getHttpRouteAdminURL (cl_Gateways c') ingress' (Some ingress') of
                  Panic \<Rightarrow> Panic
                | Return (logged, adminURL) \<Rightarrow>
                    if length (ro_LoadBalancer ingress') = 0 then
                      Return \<lparr>res_Stage = OperatorStageResultInProgress,
                              res_Error = Some ''ingress is not ready yet'',
                              res_cr = cr', res_Client = c'\<rparr>
                    else if adminURL = '''' then
                      Return \<lparr>res_Stage = OperatorStageResultFailed,
                              res_Error = Some ''ingress spec is incomplete'',
                              res_cr = cr', res_Client = c'\<rparr>
                    else
                      Return \<lparr>res_Stage = OperatorStageResultSuccess, res_Error = None,
                              res_cr = cr'\<lparr>cr_AdminURL := adminURL\<rparr>, res_Client = c'\<rparr>)
             else
               Return \<lparr>res_Stage = OperatorStageResultSuccess, res_Error = None,
                       res_cr = cr', res_Client = c'\<rparr>))"

text \<open>\<^verbatim>\<open>Reconcile\<close> logs a line and calls \<^verbatim>\<open>reconcileIngress\<close>.\<close>

definition Reconcile ::
  "(Grafana \<Rightarrow> HTTPRouteSpec) \<Rightarrow> Client \<Rightarrow> Grafana \<Rightarrow> RoutingObject \<Rightarrow> RoutingObject
     \<Rightarrow> ReconcileResult outcome" where
  "Reconcile getIngressSpec c cr httpRoute ingress =
     reconcileIngress getIngressSpec c cr httpRoute ingress"

subsection \<open>Example objects\<close>

text \<open>A store lookup of gateways that fails, and one that finds a gateway with the
  given address values under every key.\<close>

definition gatewayMissing :: "NamespacedName \<Rightarrow> err + Gateway" where
  "gatewayMissing key = Inl ''gateway not found''"

definition gatewayAt :: "string list \<Rightarrow> NamespacedName \<Rightarrow> err + Gateway" where
  "gatewayAt values key = Inr \<lparr>gw_Addresses = map (\<lambda>v. \<lparr>addr_Value = v\<rparr>) values\<rparr>"

text \<open>A routing object \<^verbatim>\<open>monitoring/grafana-httproute\<close> with the given hostnames, parent
  references and load-balancer status, no labels, no owner and no rules.\<close>

definition exampleRoute ::
  "string list \<Rightarrow> ParentReference list \<Rightarrow> LoadBalancerIngress list \<Rightarrow> RoutingObject" where
  "exampleRoute hostnames parentRefs loadBalancer =
     \<lparr>ro_Namespace = ''monitoring'', ro_Name = ''grafana-httproute'',
      ro_Labels = Map.empty, ro_Controller = None,
      ro_Spec = \<lparr>spec_ParentRefs = parentRefs, spec_Hostnames = hostnames, spec_Rules = []\<rparr>,
      ro_LoadBalancer = loadBalancer\<rparr>"

text \<open>A parser for the string form of a port, which the builder never reaches; the
  service \<^verbatim>\<open>monitoring/grafana-service\<close>, and a builder for line 53 on port 3000.\<close>

definition atoiUnused :: "string \<Rightarrow> 64 word" where
  "atoiUnused s = 0"

definition exampleService :: NamespacedName where
  "exampleService = \<lparr>nn_Namespace = ''monitoring'', nn_Name = ''grafana-service''\<rparr>"

definition exampleBuilder :: "Grafana \<Rightarrow> HTTPRouteSpec" where
  "exampleBuilder cr = getHttpRouteSpec atoiUnused exampleService 3000"

text \<open>An override that names no field, and one that the schema of the routing object
  rejects.\<close>

definition emptyFragment :: RawFragment where
  "emptyFragment =
     \<lparr>frag_Labels = Map.empty, frag_ParentRefs = None, frag_Hostnames = None,
      frag_Rules = None, frag_Incompatible = None\<rparr>"

definition badFragment :: RawFragment where
  "badFragment =
     \<lparr>frag_Labels = Map.empty, frag_ParentRefs = None, frag_Hostnames = None,
      frag_Rules = None, frag_Incompatible = Some ''unknown field spec.backend''\<rparr>"

text \<open>A descriptor \<^verbatim>\<open>monitoring/grafana\<close> with an HTTP route configured, the given
  value of \<^verbatim>\<open>PreferIngress()\<close>, admin URL and override, no labels and no conditions; a
  store with the given routing objects, no gateway and no read or write failure.\<close>

definition exampleGrafana :: "bool \<Rightarrow> string \<Rightarrow> RawFragment option \<Rightarrow> Grafana" where
  "exampleGrafana prefer adminURL override =
     \<lparr>cr_Namespace = ''monitoring'', cr_Name = ''grafana'', cr_Labels = Map.empty,
      cr_HttpRoute = Some emptyFragment, cr_Ingress = override,
      cr_PreferIngress = prefer, cr_AdminURL = adminURL, cr_Conditions = Map.empty\<rparr>"

definition exampleClient :: "(NamespacedName \<rightharpoonup> RoutingObject) \<Rightarrow> Client" where
  "exampleClient objects =
     \<lparr>cl_Objects = objects, cl_Gateways = gatewayMissing,
      cl_GetError = None, cl_WriteError = None\<rparr>"

definition exampleKey :: NamespacedName where
  "exampleKey = \<lparr>nn_Namespace = ''monitoring'', nn_Name = ''grafana-httproute''\<rparr>"

section \<open>Properties of the endpoint resolution\<close>

subsection \<open>The two scans\<close>

lemma fst_scanLoadBalancer:
  "fst (scanLoadBalancer lbs ip) =
     (case filter (\<lambda>h. h \<noteq> '''') (map lb_Hostname lbs) of [] \<Rightarrow> '''' | h # _ \<Rightarrow> h)"
  by (induction lbs arbitrary: ip) auto

lemma snd_scanLoadBalancer:
  "filter (\<lambda>h. h \<noteq> '''') (map lb_Hostname lbs) = [] \<Longrightarrow>
   snd (scanLoadBalancer lbs ip) =
     (if filter (\<lambda>i. i \<noteq> '''') (map lb_IP lbs) = [] then ip
      else last (filter (\<lambda>i. i \<noteq> '''') (map lb_IP lbs)))"
  by (induction lbs arbitrary: ip) (auto split: if_splits)

lemma firstAddress_empty_iff:
  "firstAddress as = '''' \<longleftrightarrow> (\<forall>a \<in> set as. addr_Value a = '''')"
  by (induction as) auto

lemma firstAddress_mem:
  "firstAddress as \<noteq> '''' \<Longrightarrow> firstAddress as \<in> addr_Value ` set as"
  by (induction as) (auto split: if_splits)

lemma filter_nonempty_head:
  "filter (\<lambda>h. h \<noteq> []) xs = x # ys \<Longrightarrow> x \<noteq> []"
  by (metis (mono_tags, lifting) filter_eq_ConsD)

lemma filter_nonempty_last:
  "filter (\<lambda>h. h \<noteq> []) xs \<noteq> [] \<Longrightarrow> last (filter (\<lambda>h. h \<noteq> []) xs) \<noteq> []"
  using last_in_set[of "filter (\<lambda>h. h \<noteq> []) xs"] by auto

text \<open>The host that lines 148-163 take from the load-balancer status: the first
  non-empty hostname; with no hostname in the list, the last non-empty IP.\<close>

lemma scan_host:
  "(case scanLoadBalancer lbs '''' of
      (hostname, loadBalancerIP) \<Rightarrow>
        if hostname = '''' \<and> loadBalancerIP \<noteq> '''' then loadBalancerIP else hostname) =
   (case filter (\<lambda>h. h \<noteq> '''') (map lb_Hostname lbs) of
      h # _ \<Rightarrow> h
    | [] \<Rightarrow> (if filter (\<lambda>i. i \<noteq> '''') (map lb_IP lbs) = [] then ''''
             else last (filter (\<lambda>i. i \<noteq> '''') (map lb_IP lbs))))"
proof (cases "filter (\<lambda>h. h \<noteq> '''') (map lb_Hostname lbs)")
  case Nil
  have f: "fst (scanLoadBalancer lbs '''') = ''''"
    using Nil by (simp add: fst_scanLoadBalancer)
  have s: "snd (scanLoadBalancer lbs '''') =
     (if filter (\<lambda>i. i \<noteq> '''') (map lb_IP lbs) = [] then ''''
      else last (filter (\<lambda>i. i \<noteq> '''') (map lb_IP lbs)))"
    using Nil by (rule snd_scanLoadBalancer)
  have ne: "filter (\<lambda>i. i \<noteq> '''') (map lb_IP lbs) \<noteq> [] \<Longrightarrow>
     last (filter (\<lambda>i. i \<noteq> '''') (map lb_IP lbs)) \<noteq> ''''"
    by (rule filter_nonempty_last)
  show ?thesis using f s ne Nil
    by (cases "scanLoadBalancer lbs ''''") (auto split: if_splits)
next
  case (Cons h hs)
  have "h \<noteq> ''''" using Cons by (rule filter_nonempty_head)
  moreover have "fst (scanLoadBalancer lbs '''') = h"
    using Cons by (simp add: fst_scanLoadBalancer)
  ultimately show ?thesis using Cons
    by (cases "scanLoadBalancer lbs ''''") auto
qed

lemma lb_host_empty_iff:
  "(case filter (\<lambda>h. h \<noteq> '''') (map lb_Hostname lbs) of
      h # _ \<Rightarrow> h
    | [] \<Rightarrow> (if filter (\<lambda>i. i \<noteq> '''') (map lb_IP lbs) = [] then ''''
             else last (filter (\<lambda>i. i \<noteq> '''') (map lb_IP lbs)))) = '''' \<longleftrightarrow>
   (\<forall>lb \<in> set lbs. lb_Hostname lb = '''' \<and> lb_IP lb = '''')"
proof (cases "filter (\<lambda>h. h \<noteq> '''') (map lb_Hostname lbs)")
  case Nil
  then have hs: "\<forall>lb \<in> set lbs. lb_Hostname lb = ''''"
    by (auto simp: filter_empty_conv)
  show ?thesis
  proof (cases "filter (\<lambda>i. i \<noteq> '''') (map lb_IP lbs) = []")
    case True
    then have "\<forall>lb \<in> set lbs. lb_IP lb = ''''" by (auto simp: filter_empty_conv)
    with Nil True hs show ?thesis by simp
  next
    case False
    then have "\<exists>lb \<in> set lbs. lb_IP lb \<noteq> ''''" by (auto simp: filter_empty_conv)
    with Nil False filter_nonempty_last[OF False] show ?thesis by auto
  qed
next
  case (Cons h hs)
  then have "h \<in> set (filter (\<lambda>h. h \<noteq> '''') (map lb_Hostname lbs))" by simp
  then have "\<exists>lb \<in> set lbs. lb_Hostname lb \<noteq> ''''" by auto
  with Cons filter_nonempty_head[OF Cons] show ?thesis by auto
qed

text \<open>The parent lookup of lines 112-125, read off the inputs.\<close>

lemma admin_url_cases:
  "getHttpRouteAdminURL clientGet ingress (Some hr) =
     (case (case spec_ParentRefs (ro_Spec hr) of
              [] \<Rightarrow> Return (Inr \<lparr>gw_Addresses = []\<rparr>)
            | pr # _ \<Rightarrow>
                (case pr_Namespace pr of
                   None \<Rightarrow> Panic
                 | Some ns \<Rightarrow> Return (clientGet \<lparr>nn_Namespace = ns, nn_Name = pr_Name pr\<rparr>))) of
        Panic \<Rightarrow> Panic
      | Return (Inl e) \<Rightarrow> Return ([(e, ''error synchronizing grafana statuses'')], '''')
      | Return (Inr gw) \<Rightarrow>
          Return ([],
            if spec_Hostnames (ro_Spec hr) \<noteq> [] \<and> hd (spec_Hostnames (ro_Spec hr)) \<noteq> ''''
            then ''http://'' @ hd (spec_Hostnames (ro_Spec hr))
            else if firstAddress (gw_Addresses gw) \<noteq> ''''
            then ''http://'' @ firstAddress (gw_Addresses gw)
            else (case filter (\<lambda>h. h \<noteq> '''') (map lb_Hostname (ro_LoadBalancer ingress)) of
                    h # _ \<Rightarrow> ''http://'' @ h
                  | [] \<Rightarrow>
                     (if filter (\<lambda>i. i \<noteq> '''') (map lb_IP (ro_LoadBalancer ingress)) = [] then ''''
                      else ''http://'' @
                        last (filter (\<lambda>i. i \<noteq> '''') (map lb_IP (ro_LoadBalancer ingress)))))))"
proof -
  define host where "host =
    (case scanLoadBalancer (ro_LoadBalancer ingress) '''' of
      (hostname, loadBalancerIP) \<Rightarrow>
        if hostname = '''' \<and> loadBalancerIP \<noteq> '''' then loadBalancerIP else hostname)"
  have host: "host =
    (case filter (\<lambda>h. h \<noteq> '''') (map lb_Hostname (ro_LoadBalancer ingress)) of
      h # _ \<Rightarrow> h
    | [] \<Rightarrow> (if filter (\<lambda>i. i \<noteq> '''') (map lb_IP (ro_LoadBalancer ingress)) = [] then ''''
             else last (filter (\<lambda>i. i \<noteq> '''') (map lb_IP (ro_LoadBalancer ingress)))))"
    unfolding host_def by (rule scan_host)
  have url: "(if host \<noteq> '''' then ''http://'' @ host else '''') =
     (case filter (\<lambda>h. h \<noteq> '''') (map lb_Hostname (ro_LoadBalancer ingress)) of
         h # _ \<Rightarrow> ''http://'' @ h
       | [] \<Rightarrow>
          (if filter (\<lambda>i. i \<noteq> '''') (map lb_IP (ro_LoadBalancer ingress)) = [] then ''''
           else ''http://'' @ last (filter (\<lambda>i. i \<noteq> '''') (map lb_IP (ro_LoadBalancer ingress)))))"
  proof (cases "filter (\<lambda>h. h \<noteq> '''') (map lb_Hostname (ro_LoadBalancer ingress))")
    case Nil
    show ?thesis
    proof (cases "filter (\<lambda>i. i \<noteq> '''') (map lb_IP (ro_LoadBalancer ingress)) = []")
      case True
      with Nil host show ?thesis by simp
    next
      case False
      with Nil host filter_nonempty_last[OF False] show ?thesis by simp
    qed
  next
    case (Cons h hs)
    with host filter_nonempty_head[OF Cons] show ?thesis by simp
  qed
  have "getHttpRouteAdminURL clientGet ingress (Some hr) =
     (case (case spec_ParentRefs (ro_Spec hr) of
              [] \<Rightarrow> Return (Inr \<lparr>gw_Addresses = []\<rparr>)
            | pr # _ \<Rightarrow>
                (case pr_Namespace pr of
                   None \<Rightarrow> Panic
                 | Some ns \<Rightarrow> Return (clientGet \<lparr>nn_Namespace = ns, nn_Name = pr_Name pr\<rparr>))) of
        Panic \<Rightarrow> Panic
      | Return (Inl e) \<Rightarrow> Return ([(e, ''error synchronizing grafana statuses'')], '''')
      | Return (Inr gw) \<Rightarrow>
          Return ([],
            if spec_Hostnames (ro_Spec hr) \<noteq> [] \<and> hd (spec_Hostnames (ro_Spec hr)) \<noteq> ''''
            then ''http://'' @ hd (spec_Hostnames (ro_Spec hr))
            else if firstAddress (gw_Addresses gw) \<noteq> ''''
            then ''http://'' @ firstAddress (gw_Addresses gw)
            else (if host \<noteq> '''' then ''http://'' @ host else '''')))"
    by (cases "spec_ParentRefs (ro_Spec hr)"; cases "spec_Hostnames (ro_Spec hr)")
       (auto simp: getHttpRouteAdminURL_def Let_def host_def
             split: option.splits sum.splits)
  then show ?thesis unfolding url .
qed

lemma lb_url_form:
  "(case filter (\<lambda>h. h \<noteq> '''') (map lb_Hostname lbs) of
      h # _ \<Rightarrow> ''http://'' @ h
    | [] \<Rightarrow> (if filter (\<lambda>i. i \<noteq> '''') (map lb_IP lbs) = [] then ''''
             else ''http://'' @ last (filter (\<lambda>i. i \<noteq> '''') (map lb_IP lbs)))) =
   (if \<forall>lb \<in> set lbs. lb_Hostname lb = '''' \<and> lb_IP lb = '''' then ''''
    else ''http://'' @
      (case filter (\<lambda>h. h \<noteq> '''') (map lb_Hostname lbs) of
         h # _ \<Rightarrow> h
       | [] \<Rightarrow> (if filter (\<lambda>i. i \<noteq> '''') (map lb_IP lbs) = [] then ''''
             else last (filter (\<lambda>i. i \<noteq> '''') (map lb_IP lbs)))))"
proof (cases "filter (\<lambda>h. h \<noteq> '''') (map lb_Hostname lbs)")
  case Nil
  show ?thesis
  proof (cases "filter (\<lambda>i. i \<noteq> '''') (map lb_IP lbs) = []")
    case True
    with Nil show ?thesis unfolding lb_host_empty_iff [symmetric] by simp
  next
    case False
    with Nil filter_nonempty_last [OF False] show ?thesis
      unfolding lb_host_empty_iff [symmetric] by simp
  qed
next
  case (Cons h hs)
  with filter_nonempty_head [OF Cons] show ?thesis
    unfolding lb_host_empty_iff [symmetric] by simp
qed

lemma lb_url_nonempty_host:
  "\<not> (\<forall>lb \<in> set lbs. lb_Hostname lb = '''' \<and> lb_IP lb = '''') \<Longrightarrow>
   (case filter (\<lambda>h. h \<noteq> '''') (map lb_Hostname lbs) of
         h # _ \<Rightarrow> h
       | [] \<Rightarrow> (if filter (\<lambda>i. i \<noteq> '''') (map lb_IP lbs) = [] then ''''
             else last (filter (\<lambda>i. i \<noteq> '''') (map lb_IP lbs)))) \<noteq> ''''"
  unfolding lb_host_empty_iff [symmetric] by simp

lemma successful_url:
  "(if spec_Hostnames (ro_Spec hr) \<noteq> [] \<and> hd (spec_Hostnames (ro_Spec hr)) \<noteq> ''''
    then ''http://'' @ hd (spec_Hostnames (ro_Spec hr))
    else if firstAddress (gw_Addresses gw) \<noteq> ''''
    then ''http://'' @ firstAddress (gw_Addresses gw)
    else (case filter (\<lambda>h. h \<noteq> '''') (map lb_Hostname (ro_LoadBalancer ingress)) of
            h # _ \<Rightarrow> ''http://'' @ h
          | [] \<Rightarrow>
             (if filter (\<lambda>i. i \<noteq> '''') (map lb_IP (ro_LoadBalancer ingress)) = [] then ''''
              else ''http://'' @
                last (filter (\<lambda>i. i \<noteq> '''') (map lb_IP (ro_LoadBalancer ingress))))))
   = url \<Longrightarrow>
   (url = '''' \<or> (\<exists>h. h \<noteq> '''' \<and> url = ''http://'' @ h)) \<and>
   (url \<noteq> '''' \<longleftrightarrow>
      (spec_Hostnames (ro_Spec hr) \<noteq> [] \<and> hd (spec_Hostnames (ro_Spec hr)) \<noteq> '''') \<or>
      (\<exists>a \<in> set (gw_Addresses gw). addr_Value a \<noteq> '''') \<or>
      (\<exists>lb \<in> set (ro_LoadBalancer ingress). lb_Hostname lb \<noteq> '''' \<or> lb_IP lb \<noteq> ''''))"
  unfolding lb_url_form
  using lb_url_nonempty_host [of "ro_LoadBalancer ingress"]
    firstAddress_empty_iff [of "gw_Addresses gw"]
  by (auto split: if_splits)

subsection \<open>The load-balancer fallback\<close>

text \<open>
  C1, on the list \<^verbatim>\<open>[{IP:"10.0.0.1"}, {IP:"10.0.0.2"}]\<close>: no entry has a hostname and
  the first non-empty IP is \<^verbatim>\<open>10.0.0.1\<close>, but the loop of lines 150-159 assigns
  \<^verbatim>\<open>loadBalancerIP\<close> at every entry with an IP, so the resolved URL is built from the
  last one.
\<close>

theorem lb_first_ip_counterexample:
  "getHttpRouteAdminURL gatewayMissing
     (exampleRoute [] [] [\<lparr>lb_Hostname = '''', lb_IP = ''10.0.0.1''\<rparr>,
                          \<lparr>lb_Hostname = '''', lb_IP = ''10.0.0.2''\<rparr>])
     (Some (exampleRoute [] [] [\<lparr>lb_Hostname = '''', lb_IP = ''10.0.0.1''\<rparr>,
                          \<lparr>lb_Hostname = '''', lb_IP = ''10.0.0.2''\<rparr>]))
   = Return ([], ''http://10.0.0.2'')"
  by (simp add: getHttpRouteAdminURL_def exampleRoute_def)

text \<open>
  C1 (as amended): for every routing object with no explicit hostname (no hostname
  entry, or an empty first one) and no usable parent address (no parent reference, or a
  fetched gateway whose address values are all empty), the resolved host is the first
  non-empty hostname of the load-balancer status entries, wherever it stands in the
  list; if no entry has a hostname, it is the last non-empty IP of the list; if there
  is neither, the URL is empty.
\<close>

theorem lb_fallback:
  assumes noHost: "spec_Hostnames (ro_Spec hr) = [] \<or> hd (spec_Hostnames (ro_Spec hr)) = ''''"
    and noParent: "spec_ParentRefs (ro_Spec hr) = [] \<or>
       (\<exists>ns gw. pr_Namespace (hd (spec_ParentRefs (ro_Spec hr))) = Some ns \<and>
          clientGet \<lparr>nn_Namespace = ns, nn_Name = pr_Name (hd (spec_ParentRefs (ro_Spec hr)))\<rparr> = Inr gw \<and>
          (\<forall>a \<in> set (gw_Addresses gw). addr_Value a = ''''))"
  shows "getHttpRouteAdminURL clientGet ingress (Some hr) =
     Return ([],
       case filter (\<lambda>h. h \<noteq> '''') (map lb_Hostname (ro_LoadBalancer ingress)) of
         h # _ \<Rightarrow> ''http://'' @ h
       | [] \<Rightarrow>
          (if filter (\<lambda>i. i \<noteq> '''') (map lb_IP (ro_LoadBalancer ingress)) = [] then ''''
           else ''http://'' @ last (filter (\<lambda>i. i \<noteq> '''') (map lb_IP (ro_LoadBalancer ingress)))))"
proof -
  define host where "host =
    (case scanLoadBalancer (ro_LoadBalancer ingress) '''' of
      (hostname, loadBalancerIP) \<Rightarrow>
        if hostname = '''' \<and> loadBalancerIP \<noteq> '''' then loadBalancerIP else hostname)"
  have h0: "spec_Hostnames (ro_Spec hr) \<noteq> [] \<longrightarrow> spec_Hostnames (ro_Spec hr) ! 0 = ''''"
    using noHost by (auto simp: hd_conv_nth)
  have shape: "getHttpRouteAdminURL clientGet ingress (Some hr) =
     Return ([], if host \<noteq> '''' then ''http://'' @ host else '''')"
    using noParent
  proof
    assume "spec_ParentRefs (ro_Spec hr) = []"
    then show ?thesis
      using h0 by (simp add: getHttpRouteAdminURL_def Let_def host_def)
  next
    assume "\<exists>ns gw. pr_Namespace (hd (spec_ParentRefs (ro_Spec hr))) = Some ns \<and>
          clientGet \<lparr>nn_Namespace = ns, nn_Name = pr_Name (hd (spec_ParentRefs (ro_Spec hr)))\<rparr> = Inr gw \<and>
          (\<forall>a \<in> set (gw_Addresses gw). addr_Value a = '''')"
    then obtain ns gw where
      ns: "pr_Namespace (hd (spec_ParentRefs (ro_Spec hr))) = Some ns" and
      gw: "clientGet \<lparr>nn_Namespace = ns, nn_Name = pr_Name (hd (spec_ParentRefs (ro_Spec hr)))\<rparr> = Inr gw" and
      em: "\<forall>a \<in> set (gw_Addresses gw). addr_Value a = ''''" by blast
    have fa: "firstAddress (gw_Addresses gw) = ''''"
      using em by (simp add: firstAddress_empty_iff)
    show ?thesis
    proof (cases "spec_ParentRefs (ro_Spec hr)")
      case Nil
      then show ?thesis
        using h0 by (simp add: getHttpRouteAdminURL_def Let_def host_def)
    next
      case (Cons p ps)
      then show ?thesis
        using ns gw fa h0 by (simp add: getHttpRouteAdminURL_def Let_def host_def)
    qed
  qed
  have host: "host =
    (case filter (\<lambda>h. h \<noteq> '''') (map lb_Hostname (ro_LoadBalancer ingress)) of
      h # _ \<Rightarrow> h
    | [] \<Rightarrow> (if filter (\<lambda>i. i \<noteq> '''') (map lb_IP (ro_LoadBalancer ingress)) = [] then ''''
             else last (filter (\<lambda>i. i \<noteq> '''') (map lb_IP (ro_LoadBalancer ingress)))))"
    unfolding host_def by (rule scan_host)
  show ?thesis
  proof (cases "filter (\<lambda>h. h \<noteq> '''') (map lb_Hostname (ro_LoadBalancer ingress))")
    case Nil
    show ?thesis
    proof (cases "filter (\<lambda>i. i \<noteq> '''') (map lb_IP (ro_LoadBalancer ingress)) = []")
      case True
      with Nil host show ?thesis unfolding shape by simp
    next
      case False
      with Nil host filter_nonempty_last[OF False] show ?thesis unfolding shape by simp
    qed
  next
    case (Cons h hs)
    with host filter_nonempty_head[OF Cons] show ?thesis unfolding shape by simp
  qed
qed

text \<open>The concrete case of the spec: in \<^verbatim>\<open>[{IP:"10.0.0.1"}, {Hostname:"lb.example.com"}]\<close>
  the hostname wins over the earlier IP.\<close>

theorem lb_fallback_witness:
  "getHttpRouteAdminURL gatewayMissing
     (exampleRoute [] [] [\<lparr>lb_Hostname = '''', lb_IP = ''10.0.0.1''\<rparr>,
                          \<lparr>lb_Hostname = ''lb.example.com'', lb_IP = ''''\<rparr>])
     (Some (exampleRoute [] [] [\<lparr>lb_Hostname = '''', lb_IP = ''10.0.0.1''\<rparr>,
                          \<lparr>lb_Hostname = ''lb.example.com'', lb_IP = ''''\<rparr>]))
   = Return ([], ''http://lb.example.com'')"
  using lb_fallback [of "exampleRoute [] [] [\<lparr>lb_Hostname = '''', lb_IP = ''10.0.0.1''\<rparr>,
                          \<lparr>lb_Hostname = ''lb.example.com'', lb_IP = ''''\<rparr>]" gatewayMissing
      "exampleRoute [] [] [\<lparr>lb_Hostname = '''', lb_IP = ''10.0.0.1''\<rparr>,
                          \<lparr>lb_Hostname = ''lb.example.com'', lb_IP = ''''\<rparr>]"]
  by (simp add: exampleRoute_def)

subsection \<open>An explicit hostname and the parent lookup\<close>

text \<open>
  C2, on a route with the hostname \<^verbatim>\<open>grafana.example.com\<close> and a parent reference whose
  fetch fails: lines 112-125 run whenever a parent reference exists, before the
  hostname is looked at again, and return the empty string on a failed fetch. The
  explicit hostname yields no URL.
\<close>

theorem explicit_hostname_counterexample:
  "getHttpRouteAdminURL gatewayMissing
     (exampleRoute [''grafana.example.com'']
        [\<lparr>pr_Namespace = Some ''infra'', pr_Name = ''public-gateway''\<rparr>] [])
     (Some (exampleRoute [''grafana.example.com'']
        [\<lparr>pr_Namespace = Some ''infra'', pr_Name = ''public-gateway''\<rparr>] []))
   = Return ([(''gateway not found'', ''error synchronizing grafana statuses'')], '''')"
  by (simp add: getHttpRouteAdminURL_def exampleRoute_def gatewayMissing_def)

text \<open>
  C2 (as amended): for every routing object whose hostnames list is non-empty with a
  non-empty first entry, the resolved host is that first entry whenever the object has
  no parent reference or the fetch of its first parent reference succeeds. The parent
  lookup is performed whenever a parent reference exists, also when an explicit hostname
  is declared, and a failed fetch makes the resolved URL empty.
\<close>

theorem explicit_hostname:
  assumes "spec_Hostnames (ro_Spec hr) \<noteq> []"
    and "hd (spec_Hostnames (ro_Spec hr)) \<noteq> ''''"
  shows "(spec_ParentRefs (ro_Spec hr) = [] \<longrightarrow>
        getHttpRouteAdminURL clientGet ingress (Some hr) =
          Return ([], ''http://'' @ hd (spec_Hostnames (ro_Spec hr)))) \<and>
     (\<forall>pr rest ns.
        spec_ParentRefs (ro_Spec hr) = pr # rest \<and> pr_Namespace pr = Some ns \<longrightarrow>
        getHttpRouteAdminURL clientGet ingress (Some hr) =
          (case clientGet \<lparr>nn_Namespace = ns, nn_Name = pr_Name pr\<rparr> of
             Inl e \<Rightarrow> Return ([(e, ''error synchronizing grafana statuses'')], '''')
           | Inr gw \<Rightarrow> Return ([], ''http://'' @ hd (spec_Hostnames (ro_Spec hr)))))"
  using assms
  by (auto simp: admin_url_cases split: sum.splits)

text \<open>With a gateway that is found, the explicit hostname is the resolved host; the
  address of the gateway is not used.\<close>

theorem explicit_hostname_witness:
  "getHttpRouteAdminURL (gatewayAt [''203.0.113.7''])
     (exampleRoute [''grafana.example.com'']
        [\<lparr>pr_Namespace = Some ''infra'', pr_Name = ''public-gateway''\<rparr>] [])
     (Some (exampleRoute [''grafana.example.com'']
        [\<lparr>pr_Namespace = Some ''infra'', pr_Name = ''public-gateway''\<rparr>] []))
   = Return ([], ''http://grafana.example.com'')"
  using explicit_hostname [of "exampleRoute [''grafana.example.com'']
        [\<lparr>pr_Namespace = Some ''infra'', pr_Name = ''public-gateway''\<rparr>] []"
      "gatewayAt [''203.0.113.7'']"
      "exampleRoute [''grafana.example.com'']
        [\<lparr>pr_Namespace = Some ''infra'', pr_Name = ''public-gateway''\<rparr>] []"]
  by (simp add: exampleRoute_def gatewayAt_def)

subsection \<open>A failed fetch of the parent object\<close>

text \<open>
  C3, on a route with one parent reference whose fetch fails: the resolution returns
  normally, with the empty string; that is the URL it also returns for a route with
  nothing to resolve. The error is in the log only.
\<close>

theorem fetch_failure_counterexample:
  "getHttpRouteAdminURL gatewayMissing
     (exampleRoute [] [\<lparr>pr_Namespace = Some ''infra'', pr_Name = ''public-gateway''\<rparr>]
        [\<lparr>lb_Hostname = ''lb.example.com'', lb_IP = ''''\<rparr>])
     (Some (exampleRoute [] [\<lparr>pr_Namespace = Some ''infra'', pr_Name = ''public-gateway''\<rparr>]
        [\<lparr>lb_Hostname = ''lb.example.com'', lb_IP = ''''\<rparr>]))
   = Return ([(''gateway not found'', ''error synchronizing grafana statuses'')], '''')
   \<and> getHttpRouteAdminURL gatewayMissing (exampleRoute [] [] []) (Some (exampleRoute [] [] []))
   = Return ([], '''')"
  by (simp add: getHttpRouteAdminURL_def exampleRoute_def gatewayMissing_def)

text \<open>
  C3 (as amended): for every route-style routing object with at least one parent
  reference (whose namespace is set), a failure of the store fetch of the parent object
  is logged and ends the endpoint resolution with the empty URL. The error is not
  propagated: \<^verbatim>\<open>getHttpRouteAdminURL\<close> returns a string only, the same empty string
  as when no host is found.
\<close>

theorem fetch_failure:
  assumes "spec_ParentRefs (ro_Spec hr) \<noteq> []"
    and "pr_Namespace (hd (spec_ParentRefs (ro_Spec hr))) = Some ns"
    and "clientGet \<lparr>nn_Namespace = ns, nn_Name = pr_Name (hd (spec_ParentRefs (ro_Spec hr)))\<rparr> = Inl e"
  shows "getHttpRouteAdminURL clientGet ingress (Some hr) =
     Return ([(e, ''error synchronizing grafana statuses'')], '''')"
  using assms by (cases "spec_ParentRefs (ro_Spec hr)") (simp_all add: admin_url_cases)

text \<open>A route with a hostname and a load-balancer IP, and a gateway that is missing.\<close>

theorem fetch_failure_witness:
  "getHttpRouteAdminURL gatewayMissing
     (exampleRoute [''grafana.example.com'']
        [\<lparr>pr_Namespace = Some ''infra'', pr_Name = ''missing-gateway''\<rparr>]
        [\<lparr>lb_Hostname = '''', lb_IP = ''10.0.0.1''\<rparr>])
     (Some (exampleRoute [''grafana.example.com'']
        [\<lparr>pr_Namespace = Some ''infra'', pr_Name = ''missing-gateway''\<rparr>]
        [\<lparr>lb_Hostname = '''', lb_IP = ''10.0.0.1''\<rparr>]))
   = Return ([(''gateway not found'', ''error synchronizing grafana statuses'')], '''')"
  using fetch_failure [of "exampleRoute [''grafana.example.com'']
        [\<lparr>pr_Namespace = Some ''infra'', pr_Name = ''missing-gateway''\<rparr>]
        [\<lparr>lb_Hostname = '''', lb_IP = ''10.0.0.1''\<rparr>]" "''infra''" gatewayMissing
      "''gateway not found''"
      "exampleRoute [''grafana.example.com'']
        [\<lparr>pr_Namespace = Some ''infra'', pr_Name = ''missing-gateway''\<rparr>]
        [\<lparr>lb_Hostname = '''', lb_IP = ''10.0.0.1''\<rparr>]"]
  by (simp add: exampleRoute_def gatewayMissing_def)

subsection \<open>The namespace pointer of the first parent reference\<close>

text \<open>
  C10: the endpoint resolution dereferences the namespace pointer of the first parent
  reference without a nil check. It panics exactly when the route is not nil, its
  parent-reference list is non-empty and the first parent reference has a nil
  namespace; on every other input it returns.
\<close>

theorem nil_namespace_panics:
  "getHttpRouteAdminURL clientGet ingress httpRoute = Panic \<longleftrightarrow>
     (\<exists>hr. httpRoute = Some hr \<and> spec_ParentRefs (ro_Spec hr) \<noteq> [] \<and>
           pr_Namespace (hd (spec_ParentRefs (ro_Spec hr))) = None)"
  by (auto simp: getHttpRouteAdminURL_def Let_def hd_conv_nth
           split: option.splits sum.splits prod.splits)

text \<open>A nil namespace panics; the same route with the namespace set does not.\<close>

theorem nil_namespace_panics_witness:
  "getHttpRouteAdminURL (gatewayAt [''203.0.113.7''])
     (exampleRoute [''grafana.example.com'']
        [\<lparr>pr_Namespace = None, pr_Name = ''public-gateway''\<rparr>] [])
     (Some (exampleRoute [''grafana.example.com'']
        [\<lparr>pr_Namespace = None, pr_Name = ''public-gateway''\<rparr>] [])) = Panic
   \<and> getHttpRouteAdminURL (gatewayAt [''203.0.113.7''])
     (exampleRoute [''grafana.example.com'']
        [\<lparr>pr_Namespace = Some ''infra'', pr_Name = ''public-gateway''\<rparr>] [])
     (Some (exampleRoute [''grafana.example.com'']
        [\<lparr>pr_Namespace = Some ''infra'', pr_Name = ''public-gateway''\<rparr>] [])) \<noteq> Panic"
  using nil_namespace_panics [of "gatewayAt [''203.0.113.7'']"
      "exampleRoute [''grafana.example.com'']
        [\<lparr>pr_Namespace = None, pr_Name = ''public-gateway''\<rparr>] []"
      "Some (exampleRoute [''grafana.example.com'']
        [\<lparr>pr_Namespace = None, pr_Name = ''public-gateway''\<rparr>] [])"]
    nil_namespace_panics [of "gatewayAt [''203.0.113.7'']"
      "exampleRoute [''grafana.example.com'']
        [\<lparr>pr_Namespace = Some ''infra'', pr_Name = ''public-gateway''\<rparr>] []"
      "Some (exampleRoute [''grafana.example.com'']
        [\<lparr>pr_Namespace = Some ''infra'', pr_Name = ''public-gateway''\<rparr>] [])"]
  by (simp add: exampleRoute_def)

subsection \<open>The form of the resolved URL\<close>

text \<open>
  C8, on a route with the explicit hostname \<^verbatim>\<open>grafana.example.com\<close>, a load-balancer
  entry with a hostname and an IP, and a parent reference whose fetch fails: hosts are
  there at the first and at the last step of the fallback chain, and the returned URL is
  empty.
\<close>

theorem admin_url_form_counterexample:
  "getHttpRouteAdminURL gatewayMissing
     (exampleRoute [''grafana.example.com'']
        [\<lparr>pr_Namespace = Some ''infra'', pr_Name = ''public-gateway''\<rparr>]
        [\<lparr>lb_Hostname = ''lb.example.com'', lb_IP = ''10.0.0.1''\<rparr>])
     (Some (exampleRoute [''grafana.example.com'']
        [\<lparr>pr_Namespace = Some ''infra'', pr_Name = ''public-gateway''\<rparr>]
        [\<lparr>lb_Hostname = ''lb.example.com'', lb_IP = ''10.0.0.1''\<rparr>]))
   = Return ([(''gateway not found'', ''error synchronizing grafana statuses'')], '''')"
  by (simp add: getHttpRouteAdminURL_def exampleRoute_def gatewayMissing_def)

text \<open>
  C8 (as amended): whenever the endpoint resolution returns, the URL is either empty or
  \<^verbatim>\<open>http://<host>\<close> with a non-empty host, so \<^verbatim>\<open>http://\<close> alone is never produced. For a
  nil route it is empty. When the fetch of the parent object fails (an error is logged),
  it is empty whatever hosts the inputs hold. Otherwise it is \<^verbatim>\<open>http://<host>\<close> exactly
  when some step of the fallback chain has a host: a non-empty first hostname, a
  non-empty address of the fetched gateway, or a non-empty hostname or IP in the
  load-balancer status. An empty URL is a return value, not an error.
\<close>

theorem admin_url_form:
  assumes ret: "getHttpRouteAdminURL clientGet ingress httpRoute = Return (logged, url)"
  shows "(url = '''' \<or> (\<exists>h. h \<noteq> '''' \<and> url = ''http://'' @ h)) \<and>
     (httpRoute = None \<longrightarrow> url = '''') \<and>
     (logged \<noteq> [] \<longrightarrow> url = '''') \<and>
     (\<forall>hr. httpRoute = Some hr \<and> logged = [] \<longrightarrow>
        (url \<noteq> '''' \<longleftrightarrow>
           (spec_Hostnames (ro_Spec hr) \<noteq> [] \<and> hd (spec_Hostnames (ro_Spec hr)) \<noteq> '''') \<or>
           (\<exists>ns gw. spec_ParentRefs (ro_Spec hr) \<noteq> [] \<and>
              pr_Namespace (hd (spec_ParentRefs (ro_Spec hr))) = Some ns \<and>
              clientGet \<lparr>nn_Namespace = ns,
                         nn_Name = pr_Name (hd (spec_ParentRefs (ro_Spec hr)))\<rparr> = Inr gw \<and>
              (\<exists>a \<in> set (gw_Addresses gw). addr_Value a \<noteq> '''')) \<or>
           (\<exists>lb \<in> set (ro_LoadBalancer ingress). lb_Hostname lb \<noteq> '''' \<or> lb_IP lb \<noteq> '''')))"
proof (cases httpRoute)
  case None
  with ret show ?thesis by (simp add: getHttpRouteAdminURL_def)
next
  case (Some hr)
  note ret' = ret [unfolded Some admin_url_cases]
  show ?thesis
  proof (cases "spec_ParentRefs (ro_Spec hr)")
    case Nil
    from ret' Nil have lg: "logged = []" and
      u: "(if spec_Hostnames (ro_Spec hr) \<noteq> [] \<and> hd (spec_Hostnames (ro_Spec hr)) \<noteq> ''''
    then ''http://'' @ hd (spec_Hostnames (ro_Spec hr))
    else if firstAddress (gw_Addresses \<lparr>gw_Addresses = []\<rparr>) \<noteq> ''''
    then ''http://'' @ firstAddress (gw_Addresses \<lparr>gw_Addresses = []\<rparr>)
    else (case filter (\<lambda>h. h \<noteq> '''') (map lb_Hostname (ro_LoadBalancer ingress)) of
            h # _ \<Rightarrow> ''http://'' @ h
          | [] \<Rightarrow>
             (if filter (\<lambda>i. i \<noteq> '''') (map lb_IP (ro_LoadBalancer ingress)) = [] then ''''
              else ''http://'' @
                last (filter (\<lambda>i. i \<noteq> '''') (map lb_IP (ro_LoadBalancer ingress))))))
   = url" by simp_all
    from successful_url [OF u] Nil lg Some show ?thesis by simp
  next
    case (Cons pr prs)
    show ?thesis
    proof (cases "pr_Namespace pr")
      case None
      with ret' Cons show ?thesis by simp
    next
      case (Some ns)
      note ns = this
      show ?thesis
      proof (cases "clientGet \<lparr>nn_Namespace = ns, nn_Name = pr_Name pr\<rparr>")
        case (Inl e)
        with ret' Cons ns have "logged \<noteq> []" "url = ''''" by auto
        then show ?thesis by simp
      next
        case (Inr gw)
        from ret' Cons ns Inr have lg: "logged = []" and
          u: "(if spec_Hostnames (ro_Spec hr) \<noteq> [] \<and> hd (spec_Hostnames (ro_Spec hr)) \<noteq> ''''
    then ''http://'' @ hd (spec_Hostnames (ro_Spec hr))
    else if firstAddress (gw_Addresses gw) \<noteq> ''''
    then ''http://'' @ firstAddress (gw_Addresses gw)
    else (case filter (\<lambda>h. h \<noteq> '''') (map lb_Hostname (ro_LoadBalancer ingress)) of
            h # _ \<Rightarrow> ''http://'' @ h
          | [] \<Rightarrow>
             (if filter (\<lambda>i. i \<noteq> '''') (map lb_IP (ro_LoadBalancer ingress)) = [] then ''''
              else ''http://'' @
                last (filter (\<lambda>i. i \<noteq> '''') (map lb_IP (ro_LoadBalancer ingress))))))
   = url" by simp_all
        from successful_url [OF u] Cons ns Inr lg \<open>httpRoute = Some hr\<close> show ?thesis by simp
      qed
    qed
  qed
qed

text \<open>A route without hostname whose gateway has the addresses \<^verbatim>\<open>""\<close> and
  \<^verbatim>\<open>203.0.113.7\<close>.\<close>

theorem admin_url_form_witness:
  "getHttpRouteAdminURL (gatewayAt ['''', ''203.0.113.7''])
     (exampleRoute [] [\<lparr>pr_Namespace = Some ''infra'', pr_Name = ''public-gateway''\<rparr>] [])
     (Some (exampleRoute [] [\<lparr>pr_Namespace = Some ''infra'', pr_Name = ''public-gateway''\<rparr>] []))
   = Return ([], ''http://203.0.113.7'') \<and>
   (\<exists>h. h \<noteq> '''' \<and> ''http://203.0.113.7'' = ''http://'' @ h)"
  using admin_url_form [of "gatewayAt ['''', ''203.0.113.7'']"
      "exampleRoute [] [\<lparr>pr_Namespace = Some ''infra'', pr_Name = ''public-gateway''\<rparr>] []"
      "Some (exampleRoute [] [\<lparr>pr_Namespace = Some ''infra'', pr_Name = ''public-gateway''\<rparr>] [])"
      "[]" "''http://203.0.113.7''"]
  by (simp add: getHttpRouteAdminURL_def exampleRoute_def gatewayAt_def)

section \<open>Properties of the spec builder\<close>

text \<open>The port survives the round trip of lines 181-184: \<^verbatim>\<open>int\<close> to \<^verbatim>\<open>int32\<close> in
  \<^verbatim>\<open>FromInt\<close>, back to \<^verbatim>\<open>int\<close> in \<^verbatim>\<open>IntValue\<close>, and to \<^verbatim>\<open>int32\<close> in
  \<^verbatim>\<open>v2.PortNumber\<close>.\<close>

lemma ucast_scast_ucast:
  "(ucast (scast (ucast (x :: 64 word) :: 32 word) :: 64 word) :: 32 word) = ucast x"
  by (rule bit_word_eqI) (auto simp: bit_simps)

lemma servicePort_eq:
  "(ucast (IntValue atoi (GetHttpRouteTargetPort grafanaPort)) :: 32 word) = ucast grafanaPort"
  by (simp add: IntValue_def GetHttpRouteTargetPort_def FromInt_def ucast_scast_ucast)

lemma int32_of_int:
  "(ucast (x :: 64 word) :: 32 word) = word_of_int (sint x)"
  by (rule bit_word_eqI) (auto simp: bit_simps)

lemma sint_int32_of_port:
  assumes "- (2 ^ 31) \<le> sint (grafanaPort :: 64 word)" and "sint grafanaPort < 2 ^ 31"
  shows "sint (ucast grafanaPort :: 32 word) = sint grafanaPort"
  unfolding int32_of_int sint_sbintrunc'
  using assms by (simp add: signed_take_bit_int_eq_self)

text \<open>
  C7: the spec builder is a total function and, for every service and port, produces a
  specification with exactly one rule, which has exactly one backend reference and a
  single path match of type prefix at \<^verbatim>\<open>/\<close>. The port it is given is always of the
  integer form (\<^verbatim>\<open>FromInt\<close>: tag \<^verbatim>\<open>Int\<close>, empty string), and the backend port is of the
  numeric form, the \<^verbatim>\<open>int32\<close> of that port; for a port that is positive (and fits
  \<^verbatim>\<open>int32\<close>) it has the value of the port. The string of the port is never non-empty, so
  the named form does not arise: the name of \<^verbatim>\<open>assignedPort\<close> stays empty.
\<close>

theorem spec_builder:
  "\<exists>backend port.
     getHttpRouteSpec atoi service grafanaPort =
       \<lparr>spec_ParentRefs = [], spec_Hostnames = [],
        spec_Rules =
          [\<lparr>rule_BackendRefs = [\<lparr>br_BackendRef = backend\<rparr>],
            rule_Matches =
              [\<lparr>m_Path = Some \<lparr>pm_Type = Some PathMatchPathPrefix, pm_Value = Some ''/''\<rparr>\<rparr>]\<rparr>]\<rparr> \<and>
     bor_Name backend = nn_Name service \<and>
     bor_Namespace backend = Some (nn_Namespace service) \<and>
     bor_Port backend = Some port \<and>
     port = ios_IntVal (GetHttpRouteTargetPort grafanaPort) \<and>
     ios_Type (GetHttpRouteTargetPort grafanaPort) = intstr_Int \<and>
     ios_StrVal (GetHttpRouteTargetPort grafanaPort) = '''' \<and>
     sbp_Name (assignedPort (GetHttpRouteTargetPort grafanaPort)) = '''' \<and>
     (0 < sint grafanaPort \<and> sint grafanaPort < 2 ^ 31 \<longrightarrow>
        sint port = sint grafanaPort \<and> 0 <s port \<and>
        sbp_Number (assignedPort (GetHttpRouteTargetPort grafanaPort)) = port)"
proof -
  have v: "0 < sint grafanaPort \<and> sint grafanaPort < 2 ^ 31 \<longrightarrow>
      sint (ucast grafanaPort :: 32 word) = sint grafanaPort"
    using sint_int32_of_port [of grafanaPort] by simp
  then have p: "0 < sint grafanaPort \<and> sint grafanaPort < 2 ^ 31 \<longrightarrow>
      0 <s (ucast grafanaPort :: 32 word)"
    by (simp add: word_sless_alt)
  show ?thesis
    using v p
    by (simp add: getHttpRouteSpec_def Let_def IntValue_def ucast_scast_ucast assignedPort_def
          GetHttpRouteTargetPort_def FromInt_def)
qed

text \<open>The specification for the service \<^verbatim>\<open>monitoring/grafana-service\<close> on port 3000.\<close>

theorem spec_builder_witness:
  "getHttpRouteSpec atoiUnused exampleService 3000 =
     \<lparr>spec_ParentRefs = [], spec_Hostnames = [],
      spec_Rules =
        [\<lparr>rule_BackendRefs =
            [\<lparr>br_BackendRef =
                \<lparr>bor_Name = ''grafana-service'', bor_Namespace = Some ''monitoring'',
                 bor_Port = Some 3000\<rparr>\<rparr>],
          rule_Matches =
            [\<lparr>m_Path = Some \<lparr>pm_Type = Some PathMatchPathPrefix, pm_Value = Some ''/''\<rparr>\<rparr>]\<rparr>]\<rparr>"
  using spec_builder [of atoiUnused exampleService 3000]
  by (simp add: getHttpRouteSpec_def Let_def exampleService_def GetHttpRouteTargetPort_def
        FromInt_def IntValue_def)

section \<open>Properties of the reconcile\<close>

subsection \<open>What the mutation and the upsert keep\<close>

lemma mutateFn_descriptor:
  assumes "mutateFn getIngressSpec (cr, httpRoute) ingress = ((cr', httpRoute'), ingress', e)"
  shows "cr_AdminURL cr' = cr_AdminURL cr \<and> cr_PreferIngress cr' = cr_PreferIngress cr \<and>
     cr_HttpRoute cr' = cr_HttpRoute cr \<and> cr_Ingress cr' = cr_Ingress cr \<and>
     cr_Labels cr' = cr_Labels cr \<and> cr_Namespace cr' = cr_Namespace cr \<and>
     cr_Name cr' = cr_Name cr"
  using assms
  by (auto simp: mutateFn_def Let_def setInvalidMergeCondition_def
        removeInvalidMergeCondition_def split: sum.splits)

lemma CreateOrUpdate_descriptor:
  assumes "CreateOrUpdate c ingress (cr, httpRoute) (mutateFn getIngressSpec) =
      (c', (cr', httpRoute'), ingress', result, e)"
  shows "cr_AdminURL cr' = cr_AdminURL cr \<and> cr_PreferIngress cr' = cr_PreferIngress cr"
proof (cases "cl_GetError c")
  case (Some ge)
  with assms show ?thesis by (simp add: CreateOrUpdate_def)
next
  case None
  show ?thesis
  proof (cases "cl_Objects c \<lparr>nn_Namespace = ro_Namespace ingress, nn_Name = ro_Name ingress\<rparr>")
    case None
    obtain cr1 hr1 o1 e1 where
      m: "mutateFn getIngressSpec (cr, httpRoute) ingress = ((cr1, hr1), o1, e1)"
      by (metis prod_cases3 surj_pair)
    from assms \<open>cl_GetError c = None\<close> None m have "cr' = cr1"
      by (auto simp: CreateOrUpdate_def split: option.splits)
    with mutateFn_descriptor [OF m] show ?thesis by simp
  next
    case (Some existing)
    obtain cr1 hr1 o1 e1 where
      m: "mutateFn getIngressSpec (cr, httpRoute) existing = ((cr1, hr1), o1, e1)"
      by (metis prod_cases3 surj_pair)
    from assms \<open>cl_GetError c = None\<close> Some m have "cr' = cr1"
      by (auto simp: CreateOrUpdate_def split: option.splits if_splits)
    with mutateFn_descriptor [OF m] show ?thesis by simp
  qed
qed

lemma CreateOrUpdate_success:
  assumes "CreateOrUpdate c ingress env f = (c1, env1, ingress1, result1, None)"
  shows "cl_GetError c1 = None \<and>
     cl_Objects c1 \<lparr>nn_Namespace = ro_Namespace ingress, nn_Name = ro_Name ingress\<rparr> = Some ingress1 \<and>
     (\<exists>x. f env x = (env1, ingress1, None))"
proof (cases "cl_GetError c")
  case (Some e)
  with assms show ?thesis by (simp add: CreateOrUpdate_def)
next
  case None
  note g = this
  show ?thesis
  proof (cases "cl_Objects c \<lparr>nn_Namespace = ro_Namespace ingress, nn_Name = ro_Name ingress\<rparr>")
    case None
    with assms g show ?thesis
      by (cases "f env ingress")
         (auto simp: CreateOrUpdate_def split: option.splits)
  next
    case (Some existing)
    with assms g show ?thesis
      by (cases "f env existing")
         (auto simp: CreateOrUpdate_def split: option.splits if_splits)
  qed
qed

text \<open>The first reconcile of the example descriptor on an empty store.\<close>

lemma example_created:
  "CreateOrUpdate (exampleClient Map.empty) (exampleRoute [] [] [])
     (exampleGrafana prefer url None, exampleRoute [] [] []) (mutateFn exampleBuilder) =
   (exampleClient [exampleKey \<mapsto>
        (exampleRoute [] [] [])
          \<lparr>ro_Controller := Some \<lparr>nn_Namespace = ''monitoring'', nn_Name = ''grafana''\<rparr>\<rparr>],
    (exampleGrafana prefer url None,
     (exampleRoute [] [] [])\<lparr>ro_Spec := exampleBuilder (exampleGrafana prefer url None)\<rparr>),
    (exampleRoute [] [] [])
      \<lparr>ro_Controller := Some \<lparr>nn_Namespace = ''monitoring'', nn_Name = ''grafana''\<rparr>\<rparr>,
    OperationResultCreated, None)"
  by (simp add: CreateOrUpdate_def exampleClient_def exampleRoute_def exampleGrafana_def
        mutateFn_def Merge_def SetControllerReference_def SetInheritedLabels_def
        removeInvalidMergeCondition_def exampleKey_def Let_def)

subsection \<open>The mutation on its own result\<close>

lemma map_add_twice:
  "((m ++ f) ++ g) ++ f ++ g = (m ++ f) ++ (g :: 'a \<rightharpoonup> 'b)"
  by (rule ext) (simp add: map_add_def split: option.splits)

lemma map_add_again:
  "(m ++ g) ++ g = m ++ (g :: 'a \<rightharpoonup> 'b)"
  by (rule ext) (simp add: map_add_def split: option.splits)

text \<open>The mutation reproduces an object it has produced, for every descriptor with the
  same override, labels and identity.\<close>

lemma mutateFn_idempotent:
  assumes m: "mutateFn getIngressSpec (cr, httpRoute) x = (env, obj, None)"
    and same: "cr_Ingress cr2 = cr_Ingress cr" "cr_Labels cr2 = cr_Labels cr"
      "cr_Namespace cr2 = cr_Namespace cr" "cr_Name cr2 = cr_Name cr"
  shows "\<exists>env2. mutateFn getIngressSpec2 (cr2, httpRoute2) obj = (env2, obj, None)"
proof (cases "cr_Ingress cr")
  case None
  show ?thesis
  proof (cases "ro_Controller x")
    case None
    with m \<open>cr_Ingress cr = None\<close> same show ?thesis
      by (auto simp: mutateFn_def Merge_def SetControllerReference_def SetInheritedLabels_def
            removeInvalidMergeCondition_def Let_def map_add_again split: if_splits)
  next
    case (Some owner)
    with m \<open>cr_Ingress cr = None\<close> same show ?thesis
      by (auto simp: mutateFn_def Merge_def SetControllerReference_def SetInheritedLabels_def
            removeInvalidMergeCondition_def Let_def map_add_again split: if_splits)
  qed
next
  case (Some f)
  note f = this
  show ?thesis
  proof (cases "frag_Incompatible f")
    case (Some e)
    with m f show ?thesis by (simp add: mutateFn_def Merge_def Let_def)
  next
    case None
    note ok = this
    show ?thesis
    proof (cases "ro_Controller x")
      case None
      with m f ok same show ?thesis
        by (auto simp: mutateFn_def Merge_def SetControllerReference_def SetInheritedLabels_def
              removeInvalidMergeCondition_def Let_def map_add_twice
              split: if_splits option.splits)
    next
      case (Some owner)
      with m f ok same show ?thesis
        by (auto simp: mutateFn_def Merge_def SetControllerReference_def SetInheritedLabels_def
              removeInvalidMergeCondition_def Let_def map_add_twice
              split: if_splits option.splits)
    qed
  qed
qed

subsection \<open>The readiness policy\<close>

text \<open>
  C4: when the exposure mode is the preferred access mode (an HTTP route is configured,
  the upsert has succeeded and the endpoint resolution returns): if the load-balancer
  list of the routing object is empty, the reconcile returns the stage InProgress with
  the message \<^verbatim>\<open>ingress is not ready yet\<close> and leaves the admin URL of the descriptor
  unchanged; if the list
  is populated and the resolved URL is empty, it returns the stage Failed. After a
  successful upsert the stage is InProgress exactly when the list is empty, and Failed
  exactly when the list is populated and no host is resolved.
\<close>

theorem readiness_policy:
  assumes configured: "cr_HttpRoute cr \<noteq> None"
    and preferred: "cr_PreferIngress cr"
    and upserted: "CreateOrUpdate c ingress (cr, httpRoute) (mutateFn getIngressSpec) =
      (c', (cr', httpRoute'), ingress', result, None)"
    and resolved: "getHttpRouteAdminURL (cl_Gateways c') ingress' (Some ingress') =
      Return (logged, adminURL)"
  shows "\<exists>r. reconcileIngress getIngressSpec c cr httpRoute ingress = Return r \<and>
     (ro_LoadBalancer ingress' = [] \<longrightarrow>
        res_Stage r = OperatorStageResultInProgress \<and>
        res_Error r = Some ''ingress is not ready yet'' \<and>
        cr_AdminURL (res_cr r) = cr_AdminURL cr) \<and>
     (ro_LoadBalancer ingress' \<noteq> [] \<and> adminURL = '''' \<longrightarrow>
        res_Stage r = OperatorStageResultFailed) \<and>
     (res_Stage r = OperatorStageResultInProgress \<longleftrightarrow> ro_LoadBalancer ingress' = []) \<and>
     (res_Stage r = OperatorStageResultFailed \<longleftrightarrow>
        ro_LoadBalancer ingress' \<noteq> [] \<and> adminURL = '''')"
proof -
  from CreateOrUpdate_descriptor [OF upserted] preferred
  have p: "cr_PreferIngress cr'" and a: "cr_AdminURL cr' = cr_AdminURL cr" by simp_all
  show ?thesis
    using configured upserted resolved p a
    by (simp add: reconcileIngress_def)
qed

text \<open>The first reconcile on an empty store: the route is created with an empty
  load-balancer status, the stage is InProgress, the old admin URL stays.\<close>

theorem readiness_policy_witness:
  "\<exists>r. reconcileIngress exampleBuilder (exampleClient Map.empty)
       (exampleGrafana True ''http://old.example.com'' None)
       (exampleRoute [] [] []) (exampleRoute [] [] []) = Return r \<and>
     res_Stage r = OperatorStageResultInProgress \<and>
     res_Error r = Some ''ingress is not ready yet'' \<and>
     cr_AdminURL (res_cr r) = ''http://old.example.com''"
proof -
  have configured: "cr_HttpRoute (exampleGrafana True ''http://old.example.com'' None) \<noteq> None"
    by (simp add: exampleGrafana_def)
  have preferred: "cr_PreferIngress (exampleGrafana True ''http://old.example.com'' None)"
    by (simp add: exampleGrafana_def)
  have resolved: "getHttpRouteAdminURL
      (cl_Gateways (exampleClient [exampleKey \<mapsto>
        (exampleRoute [] [] [])
          \<lparr>ro_Controller := Some \<lparr>nn_Namespace = ''monitoring'', nn_Name = ''grafana''\<rparr>\<rparr>]))
      ((exampleRoute [] [] [])
          \<lparr>ro_Controller := Some \<lparr>nn_Namespace = ''monitoring'', nn_Name = ''grafana''\<rparr>\<rparr>)
      (Some ((exampleRoute [] [] [])
          \<lparr>ro_Controller := Some \<lparr>nn_Namespace = ''monitoring'', nn_Name = ''grafana''\<rparr>\<rparr>))
      = Return ([], '''')"
    by (simp add: getHttpRouteAdminURL_def exampleRoute_def)
  from readiness_policy [OF configured preferred example_created resolved]
  obtain r where
    r: "reconcileIngress exampleBuilder (exampleClient Map.empty)
       (exampleGrafana True ''http://old.example.com'' None)
       (exampleRoute [] [] []) (exampleRoute [] [] []) = Return r"
    and e: "ro_LoadBalancer ((exampleRoute [] [] [])
          \<lparr>ro_Controller := Some \<lparr>nn_Namespace = ''monitoring'', nn_Name = ''grafana''\<rparr>\<rparr>) = [] \<longrightarrow>
        res_Stage r = OperatorStageResultInProgress \<and>
        res_Error r = Some ''ingress is not ready yet'' \<and>
        cr_AdminURL (res_cr r) = cr_AdminURL (exampleGrafana True ''http://old.example.com'' None)"
    by blast
  have lb: "ro_LoadBalancer ((exampleRoute [] [] [])
          \<lparr>ro_Controller := Some \<lparr>nn_Namespace = ''monitoring'', nn_Name = ''grafana''\<rparr>\<rparr>) = []"
    by (simp add: exampleRoute_def)
  from r e lb show ?thesis by (auto simp: exampleGrafana_def)
qed

subsection \<open>An override that does not fit the schema\<close>

text \<open>
  C5: for every override fragment that is structurally incompatible with the schema of
  the routing object (with an HTTP route configured and a store that can be read), the
  reconcile returns the stage Failed with the merge error as its error, the condition
  \<^verbatim>\<open>InvalidMerge\<close> of the descriptor is set to failed with the error text as its message,
  and the store is the one the reconcile started with: no upsert is persisted.
\<close>

theorem invalid_merge:
  assumes configured: "cr_HttpRoute cr \<noteq> None"
    and readable: "cl_GetError c = None"
    and override: "cr_Ingress cr = Some f"
    and incompatible: "frag_Incompatible f = Some e"
  shows "\<exists>r condition.
     reconcileIngress getIngressSpec c cr httpRoute ingress = Return r \<and>
     res_Stage r = OperatorStageResultFailed \<and> res_Error r = Some e \<and>
     cr_Conditions (res_cr r) ''InvalidMerge'' = Some condition \<and>
     cond_Status condition \<and> cond_Message condition = e \<and>
     res_Client r = c"
  using assms
  by (cases "cl_Objects c \<lparr>nn_Namespace = ro_Namespace ingress, nn_Name = ro_Name ingress\<rparr>")
     (simp_all add: reconcileIngress_def CreateOrUpdate_def mutateFn_def Merge_def Let_def
        setInvalidMergeCondition_def)

text \<open>A store with a converged route, and an override with a field the schema does not
  have.\<close>

theorem invalid_merge_witness:
  "\<exists>r condition.
     reconcileIngress exampleBuilder
       (exampleClient [exampleKey \<mapsto> exampleRoute [''grafana.example.com''] [] []])
       (exampleGrafana True '''' (Some badFragment))
       (exampleRoute [] [] []) (exampleRoute [] [] []) = Return r \<and>
     res_Stage r = OperatorStageResultFailed \<and>
     res_Error r = Some ''unknown field spec.backend'' \<and>
     cr_Conditions (res_cr r) ''InvalidMerge'' = Some condition \<and>
     cond_Status condition \<and> cond_Message condition = ''unknown field spec.backend'' \<and>
     res_Client r =
       exampleClient [exampleKey \<mapsto> exampleRoute [''grafana.example.com''] [] []]"
  using invalid_merge [of "exampleGrafana True '''' (Some badFragment)"
      "exampleClient [exampleKey \<mapsto> exampleRoute [''grafana.example.com''] [] []]"
      badFragment "''unknown field spec.backend''" exampleBuilder
      "exampleRoute [] [] []" "exampleRoute [] [] []"]
  by (simp add: exampleGrafana_def exampleClient_def badFragment_def)

subsection \<open>Writing the admin URL\<close>




subsection \<open>Idempotent convergence\<close>

text \<open>
  C9: convergence is idempotent. After an upsert that succeeded, a second upsert with an
  unchanged desired state (the same override, labels and identity of the descriptor)
  on the unchanged store performs no update: the mutation applied to the converged
  object reproduces it, the result is \<^verbatim>\<open>OperationResultNone\<close> (mutated is false), and the
  store is left as it is.
\<close>

theorem converge_idempotent:
  assumes first: "CreateOrUpdate c ingress (cr, httpRoute) (mutateFn getIngressSpec) =
      (c1, env1, ingress1, result1, None)"
    and same: "cr_Ingress cr2 = cr_Ingress cr" "cr_Labels cr2 = cr_Labels cr"
      "cr_Namespace cr2 = cr_Namespace cr" "cr_Name cr2 = cr_Name cr"
    and key: "ro_Namespace ingress2 = ro_Namespace ingress" "ro_Name ingress2 = ro_Name ingress"
  shows "\<exists>env2. CreateOrUpdate c1 ingress2 (cr2, httpRoute2) (mutateFn getIngressSpec) =
      (c1, env2, ingress1, OperationResultNone, None)"
proof -
  from CreateOrUpdate_success [OF first] obtain x where
    g: "cl_GetError c1 = None" and
    s: "cl_Objects c1 \<lparr>nn_Namespace = ro_Namespace ingress, nn_Name = ro_Name ingress\<rparr> = Some ingress1" and
    m: "mutateFn getIngressSpec (cr, httpRoute) x = (env1, ingress1, None)" by blast
  from mutateFn_idempotent [OF m same] obtain env2 where
    m2: "mutateFn getIngressSpec (cr2, httpRoute2) ingress1 = (env2, ingress1, None)" by blast
  show ?thesis
    using g s m2 key by (simp add: CreateOrUpdate_def)
qed

text \<open>The second reconcile after the first one on an empty store.\<close>

theorem converge_idempotent_witness:
  "\<exists>env2. CreateOrUpdate
     (exampleClient [exampleKey \<mapsto>
        (exampleRoute [] [] [])
          \<lparr>ro_Controller := Some \<lparr>nn_Namespace = ''monitoring'', nn_Name = ''grafana''\<rparr>\<rparr>])
     (exampleRoute [] [] [])
     (exampleGrafana True '''' None, exampleRoute [] [] []) (mutateFn exampleBuilder) =
   (exampleClient [exampleKey \<mapsto>
        (exampleRoute [] [] [])
          \<lparr>ro_Controller := Some \<lparr>nn_Namespace = ''monitoring'', nn_Name = ''grafana''\<rparr>\<rparr>],
    env2,
    (exampleRoute [] [] [])
      \<lparr>ro_Controller := Some \<lparr>nn_Namespace = ''monitoring'', nn_Name = ''grafana''\<rparr>\<rparr>,
    OperationResultNone, None)"
  using converge_idempotent [OF example_created [of True "''''"], of
      "exampleGrafana True '''' None" "exampleRoute [] [] []" "exampleRoute [] [] []"]
  by simp

end
